theory Spec2Isabelle
  imports Complex_Main "HOL-Library.Char_ord" "HOL-Library.List_Lexorder"
begin

unbundle bit_operations_syntax

section \<open>Policy engine (governance/policyEngine.ts)\<close>

text \<open>
  The engine reads a YAML file of rules and evaluates a context against them.
  Optional TypeScript fields are options; a JavaScript truthiness test on an optional
  string is \<open>truthy\<close> (absent and the empty string are both falsy), on an optional
  boolean \<open>truthy_bool\<close>.
\<close>

datatype PolicyDecision = Allow | Deny | Require_approval

record PolicyConditions =
  if_environment :: "string option"
  if_tool :: "string option"
  if_adapter_risk_class :: "string option"
  if_skill_state :: "string option"
  if_tenant_id :: "string option"

record PolicyThen =
  allow :: "bool option"
  deny :: "bool option"
  require_approval :: "bool option"

record PolicyRule =
  policy_id :: string
  rule_if :: "PolicyConditions option"
  rule_then :: PolicyThen

record PolicyContext =
  environment :: "string option"
  tool :: "string option"
  adapter_risk_class :: "string option"
  skill_state :: "string option"
  tenant_id :: "string option"

record PolicyEvaluation =
  decision :: PolicyDecision
  eval_policy_id :: "string option"
  matched :: "PolicyRule list"

text \<open>
  What the YAML parser hands to \<open>loadPolicies\<close>: an entry of the \<open>policies\<close> array may be
  null, and may lack \<open>policy_id\<close> or \<open>then\<close>; the file may be missing, or hold no
  \<open>policies\<close> array.
\<close>

record RawRule =
  raw_policy_id :: "string option"
  raw_if :: "PolicyConditions option"
  raw_then :: "PolicyThen option"

datatype PolicyFile =
  FileMissing
  | NoPoliciesArray
  | PoliciesArray "RawRule option list"

definition truthy :: "string option \<Rightarrow> bool" where
  "truthy s = (case s of None \<Rightarrow> False | Some v \<Rightarrow> v \<noteq> [])"

definition truthy_bool :: "bool option \<Rightarrow> bool" where
  "truthy_bool b = (b = Some True)"

text \<open>The filter of \<open>loadPolicies\<close>: \<open>!!rule && !!rule.policy_id && !!rule.then\<close>.\<close>

fun keepRule :: "RawRule option \<Rightarrow> PolicyRule option" where
  "keepRule None = None"
| "keepRule (Some r) =
     (case raw_then r of
        None \<Rightarrow> None
      | Some t \<Rightarrow>
          (if truthy (raw_policy_id r)
           then Some \<lparr>policy_id = the (raw_policy_id r), rule_if = raw_if r, rule_then = t\<rparr>
           else None))"

fun loadPolicies :: "PolicyFile \<Rightarrow> PolicyRule list" where
  "loadPolicies FileMissing = []"
| "loadPolicies NoPoliciesArray = []"
| "loadPolicies (PoliciesArray rs) = List.map_filter keepRule rs"

definition matches :: "PolicyRule \<Rightarrow> PolicyContext \<Rightarrow> bool" where
  "matches rule ctx =
     (case rule_if rule of
        None \<Rightarrow> True
      | Some conditions \<Rightarrow>
          if truthy (if_environment conditions) \<and> if_environment conditions \<noteq> environment ctx
            then False
          else if truthy (if_tool conditions) \<and> if_tool conditions \<noteq> tool ctx
            then False
          else if truthy (if_adapter_risk_class conditions)
                  \<and> if_adapter_risk_class conditions \<noteq> adapter_risk_class ctx
            then False
          else if truthy (if_skill_state conditions) \<and> if_skill_state conditions \<noteq> skill_state ctx
            then False
          else if truthy (if_tenant_id conditions) \<and> if_tenant_id conditions \<noteq> tenant_id ctx
            then False
          else True)"

definition decisionFromRule :: "PolicyRule \<Rightarrow> PolicyDecision" where
  "decisionFromRule rule =
     (if truthy_bool (deny (rule_then rule)) then Deny
      else if truthy_bool (require_approval (rule_then rule)) then Require_approval
      else if truthy_bool (allow (rule_then rule)) then Allow
      else Deny)"

text \<open>
  The loop of \<open>evaluatePolicy\<close>: the first rule that matches is pushed on \<open>matched\<close> and the
  function returns at once; when the loop ends, the decision is \<open>deny\<close>.
\<close>

fun evaluateRules :: "PolicyRule list \<Rightarrow> PolicyContext \<Rightarrow> PolicyEvaluation" where
  "evaluateRules [] ctx = \<lparr>decision = Deny, eval_policy_id = None, matched = []\<rparr>"
| "evaluateRules (rule # rest) ctx =
     (if matches rule ctx
      then \<lparr>decision = decisionFromRule rule, eval_policy_id = Some (policy_id rule),
            matched = [rule]\<rparr>
      else evaluateRules rest ctx)"

definition evaluatePolicy :: "PolicyFile \<Rightarrow> PolicyContext \<Rightarrow> PolicyEvaluation" where
  "evaluatePolicy file ctx = evaluateRules (loadPolicies file) ctx"





definition empty_context :: PolicyContext where
  "empty_context = \<lparr>environment = None, tool = None, adapter_risk_class = None,
     skill_state = None, tenant_id = None\<rparr>"

definition fs_write_context :: PolicyContext where
  "fs_write_context = empty_context\<lparr>tool := Some ''filesystem.write'', tenant_id := Some ''t1''\<rparr>"

definition then_allow :: PolicyThen where
  "then_allow = \<lparr>allow = Some True, deny = None, require_approval = None\<rparr>"

definition then_deny :: PolicyThen where
  "then_deny = \<lparr>allow = None, deny = Some True, require_approval = None\<rparr>"

definition raw_allow_all :: RawRule where
  "raw_allow_all = \<lparr>raw_policy_id = Some ''allow_all'', raw_if = None, raw_then = Some then_allow\<rparr>"

definition raw_deny_all :: RawRule where
  "raw_deny_all = \<lparr>raw_policy_id = Some ''deny_all'', raw_if = None, raw_then = Some then_deny\<rparr>"

definition allow_all :: PolicyRule where
  "allow_all = \<lparr>policy_id = ''allow_all'', rule_if = None, rule_then = then_allow\<rparr>"

definition deny_all :: PolicyRule where
  "deny_all = \<lparr>policy_id = ''deny_all'', rule_if = None, rule_then = then_deny\<rparr>"

definition allow_then_deny :: PolicyFile where
  "allow_then_deny = PoliciesArray [Some raw_allow_all, Some raw_deny_all]"



section \<open>Canonical JSON (security/stableJson.ts)\<close>

text \<open>
  \<open>JsonValue\<close> as the source declares it. A number is an integer (the safe integers of
  JavaScript); a string is its sequence of code units, here the units below 256. An
  object is the list of its own properties in the order JavaScript enumerates them
  (\<open>Object.keys\<close>, \<open>JSON.stringify\<close>).
\<close>

datatype JsonValue =
  JNull
  | JBool bool
  | JNumber int
  | JString string
  | JArray "JsonValue list"
  | JObject "(string \<times> JsonValue) list"

subsection \<open>Property order of a JavaScript object\<close>

text \<open>
  An ordinary object lists its array-index keys first, in ascending numeric order, then
  its other string keys in the order they were created. An array index is the canonical
  decimal form of an integer from 0 to 2^32 - 2.
\<close>

definition is_digit :: "char \<Rightarrow> bool" where
  "is_digit c = (CHR ''0'' \<le> c \<and> c \<le> CHR ''9'')"

definition digit_value :: "char \<Rightarrow> int" where
  "digit_value c = of_char c - 48"

definition index_value :: "string \<Rightarrow> int" where
  "index_value k = fold (\<lambda>c n. 10 * n + digit_value c) k 0"

definition is_array_index :: "string \<Rightarrow> bool" where
  "is_array_index k =
     (k \<noteq> [] \<and> list_all is_digit k \<and> (k = ''0'' \<or> hd k \<noteq> CHR ''0'')
      \<and> index_value k \<le> 4294967294)"

fun insert_index :: "string \<Rightarrow> 'v \<Rightarrow> (string \<times> 'v) list \<Rightarrow> (string \<times> 'v) list" where
  "insert_index k v [] = [(k, v)]"
| "insert_index k v (p # rest) =
     (if is_array_index (fst p) \<and> index_value (fst p) < index_value k
      then p # insert_index k v rest
      else (k, v) # p # rest)"

text \<open>
  The assignment \<open>obj[k] = v\<close> on an ordinary object. Assigning to \<open>__proto__\<close> runs the
  setter inherited from \<open>Object.prototype\<close> and creates no own property; an existing
  property keeps its place; a new array index goes to its numeric place; any other new
  key goes last.
\<close>

definition obj_set :: "(string \<times> 'v) list \<Rightarrow> string \<Rightarrow> 'v \<Rightarrow> (string \<times> 'v) list" where
  "obj_set obj k v =
     (if k = ''__proto__'' then obj
      else if k \<in> fst ` set obj then map (\<lambda>p. if fst p = k then (k, v) else p) obj
      else if is_array_index k then insert_index k v obj
      else obj @ [(k, v)])"

text \<open>
  The read \<open>value[key]\<close>. \<open>sortObject\<close> reads only keys that \<open>Object.keys\<close> returned,
  so the absent case (\<open>undefined\<close> in JavaScript) is never reached from it.
\<close>

definition obj_get :: "(string \<times> JsonValue) list \<Rightarrow> string \<Rightarrow> JsonValue" where
  "obj_get obj k = (case map_of obj k of Some v \<Rightarrow> v | None \<Rightarrow> JNull)"

lemma obj_get_size:
  "size (obj_get obj k) \<le> size_list (size_prod (\<lambda>_. 0) size) obj"
  by (induction obj) (auto simp: obj_get_def)

subsection \<open>stabilize, sortObject, stableStringify\<close>

text \<open>
  \<open>Object.keys(value).sort()\<close> sorts the keys by code units, which is the lexicographic
  order of \<open>string\<close>; the loop then assigns the keys to a fresh object in that order.
\<close>

function stabilize :: "JsonValue \<Rightarrow> JsonValue"
  and sortObject :: "(string \<times> JsonValue) list \<Rightarrow> (string \<times> JsonValue) list" where
  "stabilize (JArray items) = JArray (map stabilize items)"
| "stabilize (JObject obj) = JObject (sortObject obj)"
| "stabilize JNull = JNull"
| "stabilize (JBool b) = JBool b"
| "stabilize (JNumber n) = JNumber n"
| "stabilize (JString s) = JString s"
| "sortObject obj =
     fold (\<lambda>key sorted. obj_set sorted key (stabilize (obj_get obj key))) (sort (map fst obj)) []"
  by pat_completeness auto
termination
proof (relation "measure (\<lambda>x. case x of Inl v \<Rightarrow> 2 * size v | Inr obj \<Rightarrow> 2 * size (JObject obj) - 1)")
  show "wf (measure (\<lambda>x. case x of Inl v \<Rightarrow> 2 * size v | Inr obj \<Rightarrow> 2 * size (JObject obj) - 1))"
    by simp
next
  fix items :: "JsonValue list" and x
  assume "x \<in> set items"
  then have "size x \<le> size_list size items"
    by (rule size_list_estimation') simp
  then show "(Inl x, Inl (JArray items))
      \<in> measure (\<lambda>x. case x of Inl v \<Rightarrow> 2 * size v | Inr obj \<Rightarrow> 2 * size (JObject obj) - 1)"
    by simp
next
  fix obj :: "(string \<times> JsonValue) list"
  show "(Inr obj, Inl (JObject obj))
      \<in> measure (\<lambda>x. case x of Inl v \<Rightarrow> 2 * size v | Inr obj \<Rightarrow> 2 * size (JObject obj) - 1)"
    by simp
next
  fix obj :: "(string \<times> JsonValue) list" and x :: string
  have "size (obj_get obj x) \<le> size_list (size_prod (\<lambda>_. 0) size) obj"
    by (rule obj_get_size)
  then show "(Inl (obj_get obj x), Inr obj)
      \<in> measure (\<lambda>x. case x of Inl v \<Rightarrow> 2 * size v | Inr obj \<Rightarrow> 2 * size (JObject obj) - 1)"
    by simp
qed

declare sortObject.simps [simp del]

text \<open>
  \<open>JSON.stringify\<close> with no indent: the string escapes of \<open>QuoteJSONString\<close>, decimal
  numbers, members and elements separated by a comma alone.
\<close>

definition hex_digit :: "int \<Rightarrow> char" where
  "hex_digit n = ''0123456789abcdef'' ! nat (n mod 16)"

definition quote_char :: "char \<Rightarrow> string" where
  "quote_char c =
     (if c = CHR 0x08 then [CHR 0x5C, CHR ''b'']
      else if c = CHR 0x09 then [CHR 0x5C, CHR ''t'']
      else if c = CHR 0x0A then [CHR 0x5C, CHR ''n'']
      else if c = CHR 0x0C then [CHR 0x5C, CHR ''f'']
      else if c = CHR 0x0D then [CHR 0x5C, CHR ''r'']
      else if c = CHR 0x22 then [CHR 0x5C, CHR 0x22]
      else if c = CHR 0x5C then [CHR 0x5C, CHR 0x5C]
      else if (of_char c :: int) < 32
        then [CHR 0x5C, CHR ''u'', CHR ''0'', CHR ''0'',
              hex_digit (of_char c div 16), hex_digit (of_char c)]
      else [c])"

definition quote :: "string \<Rightarrow> string" where
  "quote s = [CHR 0x22] @ concat (map quote_char s) @ [CHR 0x22]"

function digits_of :: "int \<Rightarrow> string" where
  "digits_of n =
     (if n < 10 then [hex_digit n] else digits_of (n div 10) @ [hex_digit (n mod 10)])"
  by pat_completeness auto
termination
  by (relation "measure nat") auto

declare digits_of.simps [simp del]

definition number_to_string :: "int \<Rightarrow> string" where
  "number_to_string n = (if n < 0 then CHR ''-'' # digits_of (- n) else digits_of n)"

fun join :: "string \<Rightarrow> string list \<Rightarrow> string" where
  "join sep [] = []"
| "join sep [x] = x"
| "join sep (x # y # rest) = x @ sep @ join sep (y # rest)"

fun JSON_stringify :: "JsonValue \<Rightarrow> string" where
  "JSON_stringify JNull = ''null''"
| "JSON_stringify (JBool b) = (if b then ''true'' else ''false'')"
| "JSON_stringify (JNumber n) = number_to_string n"
| "JSON_stringify (JString s) = quote s"
| "JSON_stringify (JArray items) = ''['' @ join '','' (map JSON_stringify items) @ '']''"
| "JSON_stringify (JObject obj) =
     ''{'' @ join '','' (map (\<lambda>p. quote (fst p) @ '':'' @ JSON_stringify (snd p)) obj) @ ''}''"

definition stableStringify :: "JsonValue \<Rightarrow> string" where
  "stableStringify v = JSON_stringify (stabilize v)"

subsection \<open>Notions used to state the properties of the serialization\<close>

text \<open>
  Two JSON values are the same value when they differ at most in the order in which
  their objects list their members: objects are compared as finite maps (each a list of
  members with distinct keys), arrays element by element.
\<close>

inductive same_value :: "JsonValue \<Rightarrow> JsonValue \<Rightarrow> bool" where
  same_self: "same_value v v"
| same_array: "list_all2 same_value xs ys \<Longrightarrow> same_value (JArray xs) (JArray ys)"
| same_object:
    "distinct (map fst a) \<Longrightarrow> distinct (map fst b) \<Longrightarrow> set (map fst a) = set (map fst b) \<Longrightarrow>
     (\<forall>k \<in> set (map fst a). same_value (obj_get a k) (obj_get b k)) \<Longrightarrow>
     same_value (JObject a) (JObject b)"

text \<open>A value in which every object, at every depth, has distinct keys.\<close>

fun distinct_keys :: "JsonValue \<Rightarrow> bool" where
  "distinct_keys (JArray items) = list_all distinct_keys items"
| "distinct_keys (JObject obj) =
     (distinct (map fst obj) \<and> list_all (\<lambda>p. distinct_keys (snd p)) obj)"
| "distinct_keys v = True"

text \<open>
  The order of JavaScript properties between two keys: an array index comes before any
  other key, two array indices compare by value, two other keys by code units.
\<close>

definition js_before :: "string \<Rightarrow> string \<Rightarrow> bool" where
  "js_before k k' =
     (if is_array_index k
      then (if is_array_index k' then index_value k \<le> index_value k' else True)
      else (if is_array_index k' then False else k \<le> k'))"

fun keys_in_js_order :: "JsonValue \<Rightarrow> bool" where
  "keys_in_js_order (JArray items) = list_all keys_in_js_order items"
| "keys_in_js_order (JObject obj) =
     (sorted_wrt js_before (map fst obj) \<and> list_all (\<lambda>p. keys_in_js_order (snd p)) obj)"
| "keys_in_js_order v = True"

text \<open>The strings of a value: its string values and the keys of its objects.\<close>

fun strings_of :: "JsonValue \<Rightarrow> string list" where
  "strings_of (JString s) = [s]"
| "strings_of (JArray items) = concat (map strings_of items)"
| "strings_of (JObject obj) = concat (map (\<lambda>p. fst p # strings_of (snd p)) obj)"
| "strings_of v = []"

definition is_whitespace :: "char \<Rightarrow> bool" where
  "is_whitespace c = (c = CHR '' '' \<or> c = CHR 0x09 \<or> c = CHR 0x0A \<or> c = CHR 0x0D)"

section \<open>SHA-256 over canonical JSON (security/sha256.ts)\<close>

text \<open>
  \<open>createHash('sha256').update(input).digest('hex')\<close> hashes the UTF-8 bytes of the string
  with SHA-256 (FIPS 180-4) and prints the digest in lower-case hexadecimal. A 32-bit
  word is an integer below 2^32, and every addition is reduced modulo 2^32.
\<close>

definition add32 :: "int \<Rightarrow> int \<Rightarrow> int" where
  "add32 x y = (x + y) mod 4294967296"

definition rotr :: "nat \<Rightarrow> int \<Rightarrow> int" where
  "rotr n x = x div 2 ^ n + (x mod 2 ^ n) * 2 ^ (32 - n)"

definition shr :: "nat \<Rightarrow> int \<Rightarrow> int" where
  "shr n x = x div 2 ^ n"

definition Ch :: "int \<Rightarrow> int \<Rightarrow> int \<Rightarrow> int" where
  "Ch x y z = (x AND y) XOR ((4294967295 - x) AND z)"

definition Maj :: "int \<Rightarrow> int \<Rightarrow> int \<Rightarrow> int" where
  "Maj x y z = (x AND y) XOR (x AND z) XOR (y AND z)"

definition Sigma0 :: "int \<Rightarrow> int" where
  "Sigma0 x = rotr 2 x XOR rotr 13 x XOR rotr 22 x"

definition Sigma1 :: "int \<Rightarrow> int" where
  "Sigma1 x = rotr 6 x XOR rotr 11 x XOR rotr 25 x"

definition sigma0 :: "int \<Rightarrow> int" where
  "sigma0 x = rotr 7 x XOR rotr 18 x XOR shr 3 x"

definition sigma1 :: "int \<Rightarrow> int" where
  "sigma1 x = rotr 17 x XOR rotr 19 x XOR shr 10 x"

text \<open>The round constants and the initial hash value, in decimal.\<close>

definition K256 :: "int list" where
  "K256 = [
   1116352408, 1899447441, 3049323471, 3921009573, 961987163, 1508970993, 2453635748, 2870763221,
   3624381080, 310598401, 607225278, 1426881987, 1925078388, 2162078206, 2614888103, 3248222580,
   3835390401, 4022224774, 264347078, 604807628, 770255983, 1249150122, 1555081692, 1996064986,
   2554220882, 2821834349, 2952996808, 3210313671, 3336571891, 3584528711, 113926993, 338241895,
   666307205, 773529912, 1294757372, 1396182291, 1695183700, 1986661051, 2177026350, 2456956037,
   2730485921, 2820302411, 3259730800, 3345764771, 3516065817, 3600352804, 4094571909, 275423344,
   430227734, 506948616, 659060556, 883997877, 958139571, 1322822218, 1537002063, 1747873779,
   1955562222, 2024104815, 2227730452, 2361852424, 2428436474, 2756734187, 3204031479, 3329325298]"

definition H256 :: "int list" where
  "H256 = [1779033703, 3144134277, 1013904242, 2773480762,
           1359893119, 2600822924, 528734635, 1541459225]"

fun next_state :: "int \<Rightarrow> int \<Rightarrow> int list \<Rightarrow> int list" where
  "next_state t1 t2 [a, b, c, d, e, f, g, h] = [add32 t1 t2, a, b, c, add32 d t1, e, f, g]"
| "next_state t1 t2 s = s"

fun round256 :: "int \<Rightarrow> int \<Rightarrow> int list \<Rightarrow> int list" where
  "round256 k w [a, b, c, d, e, f, g, h] =
     next_state (add32 (add32 (add32 (add32 h (Sigma1 e)) (Ch e f g)) k) w)
                (add32 (Sigma0 a) (Maj a b c)) [a, b, c, d, e, f, g, h]"
| "round256 k w s = s"

text \<open>
  The 64 rounds, one per round constant, over a sliding window of the last sixteen
  words of the message schedule.
\<close>

fun rounds :: "int list \<Rightarrow> int list \<Rightarrow> int list \<Rightarrow> int list" where
  "rounds (k # ks) [w0, w1, w2, w3, w4, w5, w6, w7, w8, w9, w10, w11, w12, w13, w14, w15] s =
     rounds ks
       [w1, w2, w3, w4, w5, w6, w7, w8, w9, w10, w11, w12, w13, w14, w15,
        add32 (add32 (add32 (sigma1 w14) w9) (sigma0 w1)) w0]
       (round256 k w0 s)"
| "rounds ks ws s = s"

definition compress :: "int list \<Rightarrow> int list \<Rightarrow> int list" where
  "compress block hs = map2 add32 hs (rounds K256 block hs)"

fun be_words :: "int list \<Rightarrow> int list" where
  "be_words (a # b # c # d # rest) = (16777216 * a + 65536 * b + 256 * c + d) # be_words rest"
| "be_words rest = []"

fun blocks :: "int list \<Rightarrow> int list list" where
  "blocks (w0 # w1 # w2 # w3 # w4 # w5 # w6 # w7 # w8 # w9 # w10 # w11 # w12 # w13 # w14 # w15 # rest) =
     [w0, w1, w2, w3, w4, w5, w6, w7, w8, w9, w10, w11, w12, w13, w14, w15] # blocks rest"
| "blocks rest = []"

definition be_bytes64 :: "int \<Rightarrow> int list" where
  "be_bytes64 x = map (\<lambda>i. (x div 256 ^ i) mod 256) [7, 6, 5, 4, 3, 2, 1, 0]"

definition pad :: "int list \<Rightarrow> int list" where
  "pad m = m @ [128] @ replicate (nat ((119 - int (length m)) mod 64)) 0
             @ be_bytes64 (8 * int (length m))"

definition sha256_bytes :: "int list \<Rightarrow> int list" where
  "sha256_bytes m = fold compress (blocks (be_words (pad m))) H256"

definition hex_word :: "int \<Rightarrow> string" where
  "hex_word w = map (\<lambda>i. hex_digit (w div 16 ^ i)) [7, 6, 5, 4, 3, 2, 1, 0]"

definition utf8 :: "string \<Rightarrow> int list" where
  "utf8 s = concat (map (\<lambda>c. if (of_char c :: int) < 128 then [of_char c]
       else [192 + of_char c div 64, 128 + of_char c mod 64]) s)"

definition sha256Hex :: "string \<Rightarrow> string" where
  "sha256Hex input = concat (map hex_word (sha256_bytes (utf8 input)))"

definition sha256Json :: "JsonValue \<Rightarrow> string" where
  "sha256Json v = sha256Hex (stableStringify v)"

definition formatSha256 :: "string \<Rightarrow> string" where
  "formatSha256 hex = ''sha256:'' @ hex"

section \<open>Tenant permissions (auth/tenantContext.ts)\<close>

text \<open>
  The permission block of a tenant context. \<open>tools\<close> is a required array (an absent
  \<open>allowed_tools\<close> claim becomes the empty array when the context is built); the other
  four restrictions are optional. Numbers are the real values of finite doubles. The
  \<open>raw\<close> JWT payload of the context plays no part in the checks and is left out.
\<close>

record TenantPermissions =
  tools :: "string list"
  maxTokens :: "real option"
  budgetRemaining :: "real option"
  allowedModels :: "string list option"
  allowedSkills :: "string list option"

record TenantContext =
  tenantId :: string
  workspaceId :: string
  userId :: string
  agentRole :: "string option"
  permissions :: TenantPermissions

definition canUseTool :: "TenantContext \<Rightarrow> string \<Rightarrow> bool" where
  "canUseTool context toolName =
     (if ''*'' \<in> set (tools (permissions context)) then True
      else toolName \<in> set (tools (permissions context)))"

text \<open>\<open>modelName.split('/')[0]\<close>: the part of the name before its first slash.\<close>

definition provider_of :: "string \<Rightarrow> string" where
  "provider_of modelName = takeWhile (\<lambda>c. c \<noteq> CHR ''/'') modelName"

definition canUseModel :: "TenantContext \<Rightarrow> string \<Rightarrow> bool" where
  "canUseModel context modelName =
     (case allowedModels (permissions context) of
        None \<Rightarrow> True
      | Some models \<Rightarrow>
          if models = [] then True
          else modelName \<in> set models \<or> (provider_of modelName @ ''/*'') \<in> set models)"

definition canUseSkill :: "TenantContext \<Rightarrow> string \<Rightarrow> bool" where
  "canUseSkill context skillName =
     (case allowedSkills (permissions context) of
        None \<Rightarrow> True
      | Some skills \<Rightarrow>
          if skills = [] then True
          else skillName \<in> set skills \<or> ''*'' \<in> set skills)"

text \<open>\<open>estimatedCost\<close> has the default value 0 when the caller leaves it out.\<close>

definition hasBudget :: "TenantContext \<Rightarrow> real option \<Rightarrow> bool" where
  "hasBudget context estimatedCost =
     (case budgetRemaining (permissions context) of
        None \<Rightarrow> True
      | Some budget \<Rightarrow> budget \<ge> (case estimatedCost of None \<Rightarrow> 0 | Some c \<Rightarrow> c))"

definition withinTokenLimit :: "TenantContext \<Rightarrow> real \<Rightarrow> bool" where
  "withinTokenLimit context tokenCount =
     (case maxTokens (permissions context) of
        None \<Rightarrow> True
      | Some limit \<Rightarrow> tokenCount \<le> limit)"

definition tenant_with :: "TenantPermissions \<Rightarrow> TenantContext" where
  "tenant_with p = \<lparr>tenantId = ''tenant-1'', workspaceId = ''workspace-1'', userId = ''user-1'',
     agentRole = None, permissions = p\<rparr>"

definition only_tools :: "string list \<Rightarrow> TenantPermissions" where
  "only_tools ts = \<lparr>tools = ts, maxTokens = None, budgetRemaining = None,
     allowedModels = None, allowedSkills = None\<rparr>"

section \<open>Tool tokens (governance/toolTokens.ts)\<close>

text \<open>
  The service signs and verifies tokens with the jose library and keeps one row per
  token in the table \<open>tool_tokens\<close>.

  jose is modelled symbolically. A token string is either not a compact JWS at all, or
  it carries a protected header algorithm, a payload and a signature; the signature is
  named by the secret it was made with, and verifies under that secret only.
\<close>

type_synonym JWTPayload = "(string \<times> JsonValue) list"

datatype Token =
  Malformed string
  | Compact (jws_alg: string) (jws_payload: JWTPayload) (jws_signed_with: string)

text \<open>
  \<open>new SignJWT(claims).setProtectedHeader({alg}).setIssuedAt(iat).setExpirationTime(exp)
  .setJti(jti).sign(secret)\<close>.
\<close>

definition SignJWT :: "JWTPayload \<Rightarrow> string \<Rightarrow> int \<Rightarrow> int \<Rightarrow> string \<Rightarrow> string \<Rightarrow> Token" where
  "SignJWT claims a issuedAt expiresAt tokenId secret =
     Compact a
       (claims @ [(''iat'', JNumber issuedAt), (''exp'', JNumber expiresAt),
                  (''jti'', JString tokenId)])
       secret"

text \<open>
  The checks of \<open>jwtVerify(token, secret, {algorithms})\<close> at the time \<open>now\<close> (in seconds):
  the format, the algorithm, the signature, and the registered claims \<open>iat\<close>, \<open>nbf\<close> and
  \<open>exp\<close>, each of which must be a number when present; a token is expired when
  \<open>exp \<le> now\<close>. \<open>None\<close> stands for any of the exceptions jose throws.
\<close>

definition claim_is_number :: "JWTPayload \<Rightarrow> string \<Rightarrow> bool" where
  "claim_is_number p k = (case map_of p k of Some (JNumber n) \<Rightarrow> True | _ \<Rightarrow> False)"

definition claims_valid_at :: "JWTPayload \<Rightarrow> int \<Rightarrow> bool" where
  "claims_valid_at p now =
     ((case map_of p ''iat'' of None \<Rightarrow> True | Some (JNumber n) \<Rightarrow> True | Some _ \<Rightarrow> False)
      \<and> (case map_of p ''nbf'' of None \<Rightarrow> True | Some (JNumber n) \<Rightarrow> n \<le> now | Some _ \<Rightarrow> False)
      \<and> (case map_of p ''exp'' of None \<Rightarrow> True | Some (JNumber n) \<Rightarrow> now < n | Some _ \<Rightarrow> False))"

fun jwtVerify :: "Token \<Rightarrow> string \<Rightarrow> string list \<Rightarrow> int \<Rightarrow> JWTPayload option" where
  "jwtVerify (Malformed s) secret algorithms now = None"
| "jwtVerify (Compact a p k) secret algorithms now =
     (if a \<notin> set algorithms then None
      else if k \<noteq> secret then None
      else if \<not> claims_valid_at p now then None
      else Some p)"

record ToolTokenClaims =
  claim_tenant_id :: string
  claim_workspace_id :: string
  claim_adapter_id :: string
  claim_execution_id :: string
  claim_tool :: string
  claim_scope :: JsonValue

text \<open>A timestamp is the instant it denotes, in milliseconds since the epoch.\<close>

record IssuedToolToken =
  token :: Token
  jti :: string
  expires_at :: int
  scope_hash :: string

datatype ToolTokenErrorCode = config_error | invalid_token | expired | used

record ToolTokenConfig =
  toolTokenSecret :: "string option"
  toolTokenAlgorithm :: string

text \<open>
  A row of \<open>tool_tokens\<close>. The table is the list of its rows; \<open>used_at\<close> is NULL in a row
  that the INSERT of \<open>issueToolToken\<close> creates, since the statement gives it no value.
\<close>

record ToolTokenRow =
  row_jti :: string
  row_tenant_id :: string
  row_adapter_id :: string
  row_execution_id :: string
  row_tool :: string
  row_scope_hash :: string
  row_issued_at :: int
  row_expires_at :: int
  used_at :: "int option"

type_synonym tool_tokens = "ToolTokenRow list"

text \<open>
  \<open>issueToolToken\<close>: \<open>fresh\<close> is the value \<open>uuidv7()\<close> returns, \<open>now\<close> the value of
  \<open>Date.now()\<close> in milliseconds, \<open>ttlSeconds\<close> defaults to 30.
\<close>

definition issueToolToken ::
  "ToolTokenConfig \<Rightarrow> int \<Rightarrow> string \<Rightarrow> ToolTokenClaims \<Rightarrow> int option \<Rightarrow> tool_tokens
   \<Rightarrow> ToolTokenErrorCode + (IssuedToolToken \<times> tool_tokens)" where
  "issueToolToken cfg now fresh claims ttlSeconds db =
     (if \<not> truthy (toolTokenSecret cfg) then Inl config_error
      else
        let issuedAt = now div 1000;
            expiresAt = issuedAt + (case ttlSeconds of None \<Rightarrow> 30 | Some t \<Rightarrow> t);
            scopeHash = formatSha256 (sha256Json (claim_scope claims));
            tok = SignJWT
              [(''typ'', JString ''tool_auth''),
               (''tenant_id'', JString (claim_tenant_id claims)),
               (''workspace_id'', JString (claim_workspace_id claims)),
               (''adapter_id'', JString (claim_adapter_id claims)),
               (''execution_id'', JString (claim_execution_id claims)),
               (''tool'', JString (claim_tool claims)),
               (''scope'', claim_scope claims),
               (''scope_hash'', JString scopeHash)]
              (toolTokenAlgorithm cfg) issuedAt expiresAt fresh (the (toolTokenSecret cfg));
            row = \<lparr>row_jti = fresh, row_tenant_id = claim_tenant_id claims,
                   row_adapter_id = claim_adapter_id claims,
                   row_execution_id = claim_execution_id claims, row_tool = claim_tool claims,
                   row_scope_hash = scopeHash, row_issued_at = issuedAt * 1000,
                   row_expires_at = expiresAt * 1000, used_at = None\<rparr>
        in Inr (\<lparr>token = tok, jti = fresh, expires_at = expiresAt * 1000,
                  scope_hash = scopeHash\<rparr>, db @ [row]))"

text \<open>
  \<open>verifyToolToken\<close> calls \<open>jwtVerify\<close> and nothing else: it takes no database handle.
  \<open>now\<close> is the current time in seconds.
\<close>

definition verifyToolToken ::
  "ToolTokenConfig \<Rightarrow> int \<Rightarrow> Token \<Rightarrow> ToolTokenErrorCode + JWTPayload" where
  "verifyToolToken cfg now tok =
     (if \<not> truthy (toolTokenSecret cfg) then Inl config_error
      else case jwtVerify tok (the (toolTokenSecret cfg)) [toolTokenAlgorithm cfg] now of
             Some payload \<Rightarrow> Inr payload
           | None \<Rightarrow> Inl invalid_token)"

text \<open>
  \<open>consumeToolToken\<close>: the statement
  \<open>UPDATE tool_tokens SET used_at = ? WHERE jti = ? AND used_at IS NULL\<close> as one step on
  the table; \<open>changes\<close> is the number of rows the WHERE clause selects.
\<close>

definition unused_row :: "string \<Rightarrow> ToolTokenRow \<Rightarrow> bool" where
  "unused_row j r = (row_jti r = j \<and> used_at r = None)"

definition consumeToolToken :: "int \<Rightarrow> string \<Rightarrow> tool_tokens \<Rightarrow> bool \<times> tool_tokens" where
  "consumeToolToken now j db =
     (let changes = length (filter (unused_row j) db)
      in (changes > 0, map (\<lambda>r. if unused_row j r then r\<lparr>used_at := Some now\<rparr> else r) db))"



definition test_config :: ToolTokenConfig where
  "test_config = \<lparr>toolTokenSecret = Some ''test-secret'', toolTokenAlgorithm = ''HS256''\<rparr>"

definition test_claims :: ToolTokenClaims where
  "test_claims = \<lparr>claim_tenant_id = ''t1'', claim_workspace_id = ''w1'', claim_adapter_id = ''a1'',
     claim_execution_id = ''e1'', claim_tool = ''filesystem.write'',
     claim_scope = JObject [(''path'', JString ''/tmp/out.txt''), (''bytes'', JNumber 10)]\<rparr>"

text \<open>The token and the table that issuing into the empty table at t = 1000 s gives.\<close>

definition example_issue :: "ToolTokenErrorCode + (IssuedToolToken \<times> tool_tokens)" where
  "example_issue = issueToolToken test_config 1000000 ''jti-1'' test_claims None []"

definition example_issued :: IssuedToolToken where
  "example_issued = fst (projr example_issue)"

definition example_table :: tool_tokens where
  "example_table = snd (projr example_issue)"

section \<open>Trace integrity (tracing/traceIntegrity.ts)\<close>












subsection \<open>The verdicts in the words of the specification\<close>








section \<open>Signed telemetry envelopes (adapters/signedEnvelope.ts)\<close>

record SignedTelemetryEnvelope =
  envelope_version :: string
  adapter_id :: string
  adapter_version :: string
  issued_at :: string
  execution_id :: string
  envelope_trace_id :: string
  payload_type :: string
  payload :: JsonValue
  payload_hash :: string
  signature :: string

record TelemetryKey =
  alg :: string
  publicJwk :: "(string \<times> JsonValue) list"
  keyId :: "string option"
  revokedAt :: "string option"

datatype SignedEnvelopeErrorCode =
  invalid_payload
  | invalid_signature
  | payload_hash_mismatch
  | timestamp_skew
  | unsupported_algorithm
  | missing_key

text \<open>
  What a call can throw: a \<open>SignedEnvelopeError\<close> with its code, or the exception of
  \<open>createPublicKey\<close> on a JWK it cannot read.
\<close>

datatype EnvelopeFailure = SignedEnvelopeError SignedEnvelopeErrorCode | KeyFormatError

text \<open>
  The primitives of the JavaScript runtime that the verifier calls and that are not
  code of this repository: \<open>new Date(s).getTime()\<close> (\<open>None\<close> for NaN),
  \<open>Buffer.from(s, 'base64')\<close>, \<open>createPublicKey\<close> (\<open>None\<close> when it throws) and
  \<open>crypto.verify\<close> with its digest argument (\<open>null\<close> or \<open>'sha256'\<close>).
\<close>

datatype KeyObject = KeyObject "(string \<times> JsonValue) list"

record Runtime =
  Date_getTime :: "string \<Rightarrow> int option"
  Buffer_from_base64 :: "string \<Rightarrow> int list"
  createPublicKey :: "(string \<times> JsonValue) list \<Rightarrow> KeyObject option"
  cryptoVerify :: "string option \<Rightarrow> int list \<Rightarrow> KeyObject \<Rightarrow> int list \<Rightarrow> bool"

definition buildSigningInput :: "SignedTelemetryEnvelope \<Rightarrow> string" where
  "buildSigningInput envelope = stableStringify (JObject
     [(''envelope_version'', JString (envelope_version envelope)),
      (''adapter_id'', JString (adapter_id envelope)),
      (''adapter_version'', JString (adapter_version envelope)),
      (''issued_at'', JString (issued_at envelope)),
      (''execution_id'', JString (execution_id envelope)),
      (''trace_id'', JString (envelope_trace_id envelope)),
      (''payload_type'', JString (payload_type envelope)),
      (''payload_hash'', JString (payload_hash envelope))])"

text \<open>
  \<open>parseSignature\<close>: base64url characters are mapped to base64 ones, the string is
  padded with \<open>=\<close> to a multiple of four, and the result is decoded.
\<close>

definition normalize_signature :: "string \<Rightarrow> string" where
  "normalize_signature sig =
     (let isBase64Url = (CHR ''-'' \<in> set sig \<or> CHR ''_'' \<in> set sig);
          normalized = (if isBase64Url
                        then map (\<lambda>c. if c = CHR ''-'' then CHR ''+''
                                       else if c = CHR ''_'' then CHR ''/'' else c) sig
                        else sig)
      in normalized @ replicate ((4 - length normalized mod 4) mod 4) CHR ''='')"

definition parseSignature :: "Runtime \<Rightarrow> string \<Rightarrow> int list" where
  "parseSignature rt sig = Buffer_from_base64 rt (normalize_signature sig)"

text \<open>
  \<open>verifySignedEnvelope\<close>: \<open>now\<close> is \<open>Date.now()\<close> in milliseconds; \<open>Inr ()\<close> is the normal
  return.
\<close>

definition verifySignedEnvelope ::
  "Runtime \<Rightarrow> int \<Rightarrow> SignedTelemetryEnvelope \<Rightarrow> TelemetryKey option \<Rightarrow> int
   \<Rightarrow> EnvelopeFailure + unit" where
  "verifySignedEnvelope rt now envelope key maxSkewSeconds =
     (case key of
        None \<Rightarrow> Inl (SignedEnvelopeError missing_key)
      | Some k \<Rightarrow>
          if truthy (revokedAt k) then Inl (SignedEnvelopeError missing_key)
          else if formatSha256 (sha256Json (payload envelope)) \<noteq> payload_hash envelope
            then Inl (SignedEnvelopeError payload_hash_mismatch)
          else case Date_getTime rt (issued_at envelope) of
            None \<Rightarrow> Inl (SignedEnvelopeError timestamp_skew)
          | Some issuedAt \<Rightarrow>
              if \<bar>now - issuedAt\<bar> > maxSkewSeconds * 1000
                then Inl (SignedEnvelopeError timestamp_skew)
              else if alg k = ''ed25519'' then
                (case createPublicKey rt (publicJwk k) of
                   None \<Rightarrow> Inl KeyFormatError
                 | Some publicKey \<Rightarrow>
                     if cryptoVerify rt None (utf8 (buildSigningInput envelope)) publicKey
                          (parseSignature rt (signature envelope))
                     then Inr () else Inl (SignedEnvelopeError invalid_signature))
              else if alg k = ''ES256'' then
                (case createPublicKey rt (publicJwk k) of
                   None \<Rightarrow> Inl KeyFormatError
                 | Some publicKey \<Rightarrow>
                     if cryptoVerify rt (Some ''sha256'') (utf8 (buildSigningInput envelope))
                          publicKey (parseSignature rt (signature envelope))
                     then Inr () else Inl (SignedEnvelopeError invalid_signature))
              else Inl (SignedEnvelopeError unsupported_algorithm))"


text \<open>
  A stand-in runtime for the examples: it parses one timestamp, decodes one base64
  string (\<open>+/8=\<close>, to the bytes 251, 255), reads every JWK, and accepts exactly the
  signature bytes 251, 255. The example envelope carries that signature in base64url.
\<close>

definition example_runtime :: Runtime where
  "example_runtime = \<lparr>
     Date_getTime = (\<lambda>s. if s = ''2026-01-01T00:00:00.000Z'' then Some 1767225600000 else None),
     Buffer_from_base64 = (\<lambda>s. if s = ''+/8='' then [251, 255] else []),
     createPublicKey = (\<lambda>jwk. Some (KeyObject jwk)),
     cryptoVerify = (\<lambda>digest message publicKey sig. sig = [251, 255])\<rparr>"

definition example_key :: TelemetryKey where
  "example_key = \<lparr>alg = ''ed25519'', publicJwk = [(''kty'', JString ''OKP'')], keyId = None,
     revokedAt = None\<rparr>"

definition hello_payload :: JsonValue where
  "hello_payload = JObject [(''hello'', JString ''world'')]"

definition example_envelope :: SignedTelemetryEnvelope where
  "example_envelope = \<lparr>envelope_version = ''v1'', adapter_id = ''adapter-1'',
     adapter_version = ''1.0.0'', issued_at = ''2026-01-01T00:00:00.000Z'',
     execution_id = ''exec-1'', envelope_trace_id = ''trace-1'', payload_type = ''trace'',
     payload = hello_payload,
     payload_hash = ''sha256:93a23971a914e5eacbf0a8d25154cda309c3c1c72fbb9914d47c60f3cb681588'',
     signature = ''-_8''\<rparr>"

section \<open>Properties of the policy engine\<close>

lemma evaluateRules_no_match:
  "\<forall>r \<in> set rs. \<not> matches r ctx \<Longrightarrow>
   evaluateRules rs ctx = \<lparr>decision = Deny, eval_policy_id = None, matched = []\<rparr>"
  by (induction rs) simp_all

lemma evaluateRules_first_match:
  "\<forall>q \<in> set pre. \<not> matches q ctx \<Longrightarrow> matches r ctx \<Longrightarrow>
   evaluateRules (pre @ r # post) ctx =
     \<lparr>decision = decisionFromRule r, eval_policy_id = Some (policy_id r), matched = [r]\<rparr>"
  by (induction pre) simp_all

lemma loadPolicies_allow_then_deny: "loadPolicies allow_then_deny = [allow_all, deny_all]"
  by (simp add: allow_then_deny_def raw_allow_all_def raw_deny_all_def allow_all_def
      deny_all_def List.map_filter_simps truthy_def)

text \<open>
  C1 (as the code has it). When no loaded rule matches the context, \<open>evaluatePolicy\<close>
  returns the decision \<open>deny\<close>, with no policy id and an empty \<open>matched\<close> list.
\<close>

theorem evaluatePolicy_no_match_denies:
  "\<forall>r \<in> set (loadPolicies file). \<not> matches r ctx \<Longrightarrow>
   evaluatePolicy file ctx = \<lparr>decision = Deny, eval_policy_id = None, matched = []\<rparr>"
  unfolding evaluatePolicy_def by (rule evaluateRules_no_match)

theorem evaluatePolicy_no_match_denies_witness:
  "loadPolicies (PoliciesArray []) = []
   \<and> evaluatePolicy (PoliciesArray []) fs_write_context
       = \<lparr>decision = Deny, eval_policy_id = None, matched = []\<rparr>"
  using evaluatePolicy_no_match_denies [of "PoliciesArray []" fs_write_context]
  by (simp add: List.map_filter_simps)

text \<open>
  C1 as claimed fails: with an empty \<open>policies\<close> array no rule matches, and the decision
  is not \<open>allow\<close>.
\<close>

theorem evaluatePolicy_default_allow_counterexample:
  "loadPolicies (PoliciesArray []) = []
   \<and> decision (evaluatePolicy (PoliciesArray []) fs_write_context) \<noteq> Allow"
  by (simp add: evaluatePolicy_def List.map_filter_simps)

text \<open>
  C2 (as the code has it). The result is decided by the first loaded rule, in file order,
  that matches: \<open>matched\<close> holds that rule alone, \<open>policy_id\<close> is its id, and the decision is
  that rule's own effect, where inside one rule deny wins over require_approval, which
  wins over allow, and a rule with no effect set denies.
\<close>

theorem evaluatePolicy_first_match:
  "loadPolicies file = pre @ r # post \<Longrightarrow> \<forall>q \<in> set pre. \<not> matches q ctx \<Longrightarrow> matches r ctx \<Longrightarrow>
   evaluatePolicy file ctx =
     \<lparr>decision = decisionFromRule r, eval_policy_id = Some (policy_id r), matched = [r]\<rparr>
   \<and> decisionFromRule r =
       (if deny (rule_then r) = Some True then Deny
        else if require_approval (rule_then r) = Some True then Require_approval
        else if allow (rule_then r) = Some True then Allow
        else Deny)"
  unfolding evaluatePolicy_def
  by (simp add: evaluateRules_first_match) (simp add: decisionFromRule_def truthy_bool_def)

theorem evaluatePolicy_first_match_witness:
  "loadPolicies allow_then_deny = [] @ allow_all # [deny_all]
   \<and> matches allow_all empty_context
   \<and> evaluatePolicy allow_then_deny empty_context =
       \<lparr>decision = Allow, eval_policy_id = Some ''allow_all'', matched = [allow_all]\<rparr>"
proof -
  have l: "loadPolicies allow_then_deny = [] @ allow_all # [deny_all]"
    by (simp add: loadPolicies_allow_then_deny)
  have n: "\<forall>q \<in> set []. \<not> matches q empty_context" by simp
  have m: "matches allow_all empty_context" by (simp add: matches_def allow_all_def)
  have d: "decisionFromRule allow_all = Allow"
    by (simp add: decisionFromRule_def allow_all_def then_allow_def truthy_bool_def)
  show ?thesis using evaluatePolicy_first_match [OF l n m] l m d
    by (simp add: allow_all_def)
qed

text \<open>
  C2 as claimed fails: an unconditional allow rule followed by an unconditional deny rule
  both match every context, yet the decision is \<open>allow\<close> and \<open>matched\<close> holds the first
  rule only.
\<close>

theorem evaluatePolicy_precedence_counterexample:
  "loadPolicies allow_then_deny = [allow_all, deny_all]
   \<and> matches allow_all empty_context \<and> matches deny_all empty_context
   \<and> decisionFromRule deny_all = Deny
   \<and> decision (evaluatePolicy allow_then_deny empty_context) = Allow
   \<and> matched (evaluatePolicy allow_then_deny empty_context) = [allow_all]"
  by (simp add: loadPolicies_allow_then_deny evaluatePolicy_def)
     (simp add: matches_def decisionFromRule_def allow_all_def deny_all_def then_allow_def
       then_deny_def truthy_bool_def)




section \<open>Properties of the canonical serialization\<close>

subsection \<open>Equal values serialize identically\<close>

lemma sortObject_cong:
  assumes "sort (map fst a) = sort (map fst b)"
    and "\<And>k. k \<in> set (map fst a) \<Longrightarrow> stabilize (obj_get a k) = stabilize (obj_get b k)"
  shows "sortObject a = sortObject b"
proof -
  have "set (sort (map fst a)) = set (map fst a)" by simp
  then have "fold (\<lambda>key sorted. obj_set sorted key (stabilize (obj_get a key))) (sort (map fst a)) []
      = fold (\<lambda>key sorted. obj_set sorted key (stabilize (obj_get b key))) (sort (map fst a)) []"
    using assms(2) by (intro fold_cong) auto
  then show ?thesis using assms(1) by (simp add: sortObject.simps)
qed

lemma sort_unique:
  "distinct xs \<Longrightarrow> distinct ys \<Longrightarrow> set xs = set ys \<Longrightarrow> sort xs = sort (ys :: string list)"
  by (rule sorted_distinct_set_unique) simp_all

text \<open>
  The result of \<open>stabilize\<close> depends on the value alone, not on the order in which the
  objects of the input list their members.
\<close>

lemma same_value_stabilize: "same_value a b \<Longrightarrow> stabilize a = stabilize b"
proof (induction rule: same_value.induct)
  case (same_self v)
  show ?case by simp
next
  case (same_array xs ys)
  then have "map stabilize xs = map stabilize ys"
    by (induction xs ys rule: list_all2_induct) simp_all
  then show ?case by simp
next
  case (same_object a b)
  have "sort (map fst a) = sort (map fst b)"
    using same_object(1-3) by (rule sort_unique)
  moreover have "\<And>k. k \<in> set (map fst a) \<Longrightarrow> stabilize (obj_get a k) = stabilize (obj_get b k)"
    using same_object(4) by blast
  ultimately have "sortObject a = sortObject b" by (rule sortObject_cong)
  then show ?case by simp
qed

lemma same_value_stableStringify:
  "same_value a b \<Longrightarrow> stableStringify a = stableStringify b"
  by (simp add: stableStringify_def same_value_stabilize)

subsection \<open>The order of the keys that are emitted\<close>

lemma js_before_trans: "js_before a b \<Longrightarrow> js_before b c \<Longrightarrow> js_before a c"
  by (auto simp: js_before_def split: if_splits)

lemma keys_insert_index: "fst ` set (insert_index k v s) = insert k (fst ` set s)"
  by (induction s) auto

lemma members_insert_index: "set (insert_index k v s) = insert (k, v) (set s)"
  by (induction s) auto

lemma sorted_insert_index:
  "is_array_index k \<Longrightarrow> sorted_wrt js_before (map fst s) \<Longrightarrow>
   sorted_wrt js_before (map fst (insert_index k v s))"
proof (induction s)
  case Nil
  then show ?case by simp
next
  case (Cons p rest)
  show ?case
  proof (cases "is_array_index (fst p) \<and> index_value (fst p) < index_value k")
    case True
    then have "js_before (fst p) k"
      using Cons.prems(1) by (simp add: js_before_def)
    then show ?thesis
      using True Cons by (auto simp: keys_insert_index)
  next
    case False
    then have b: "js_before k (fst p)"
      using Cons.prems(1) by (auto simp: js_before_def)
    have "\<forall>x \<in> set (map fst rest). js_before k x"
      using b Cons.prems(2) js_before_trans by auto
    then show ?thesis
      using b Cons.prems(2) by (simp add: False)
  qed
qed

lemma keys_obj_set: "fst ` set (obj_set s k v) \<subseteq> insert k (fst ` set s)"
  by (auto simp: obj_set_def keys_insert_index)

lemma members_obj_set: "set (obj_set s k v) \<subseteq> insert (k, v) (set s)"
  by (auto simp: obj_set_def members_insert_index)

lemma sorted_obj_set:
  assumes "sorted_wrt js_before (map fst s)" and "k \<notin> fst ` set s"
    and "\<forall>x \<in> fst ` set s. x \<le> k"
  shows "sorted_wrt js_before (map fst (obj_set s k v))"
proof (cases "k = ''__proto__''")
  case True
  then show ?thesis using assms(1) by (simp add: obj_set_def)
next
  case False
  show ?thesis
  proof (cases "is_array_index k")
    case True
    then show ?thesis
      using assms(1,2) False by (simp add: obj_set_def sorted_insert_index)
  next
    case idx: False
    have "\<forall>x \<in> set (map fst s). js_before x k"
      using assms(3) idx by (auto simp: js_before_def)
    then show ?thesis
      using assms(1,2) False idx by (simp add: obj_set_def sorted_wrt_append)
  qed
qed

lemma sorted_fold_obj_set:
  "sorted (pre @ ks) \<Longrightarrow> distinct (pre @ ks) \<Longrightarrow> fst ` set s \<subseteq> set pre \<Longrightarrow>
   sorted_wrt js_before (map fst s) \<Longrightarrow>
   sorted_wrt js_before (map fst (fold (\<lambda>k s. obj_set s k (g k)) ks s))"
proof (induction ks arbitrary: pre s)
  case Nil
  then show ?case by simp
next
  case (Cons k ks)
  have n: "k \<notin> fst ` set s"
    using Cons.prems(2,3) by auto
  have l: "\<forall>x \<in> fst ` set s. x \<le> k"
    using Cons.prems(1,3) by (auto simp: sorted_append)
  have a: "sorted ((pre @ [k]) @ ks)" "distinct ((pre @ [k]) @ ks)"
    using Cons.prems(1,2) by simp_all
  have b: "fst ` set (obj_set s k (g k)) \<subseteq> set (pre @ [k])"
    using keys_obj_set [of s k "g k"] Cons.prems(3) by auto
  have c: "sorted_wrt js_before (map fst (obj_set s k (g k)))"
    using Cons.prems(4) n l by (rule sorted_obj_set)
  show ?case
    using Cons.IH [OF a b c] by simp
qed

lemma members_fold_obj_set:
  "set (fold (\<lambda>k s. obj_set s k (g k)) ks s) \<subseteq> set s \<union> (\<lambda>k. (k, g k)) ` set ks"
proof (induction ks arbitrary: s)
  case Nil
  then show ?case by simp
next
  case (Cons k ks)
  show ?case
    using Cons.IH [of "obj_set s k (g k)"] members_obj_set [of s k "g k"] by auto
qed

lemma sortObject_members:
  assumes "p \<in> set (sortObject obj)"
  shows "fst p \<in> fst ` set obj \<and> snd p = stabilize (obj_get obj (fst p))"
proof -
  have "set (sortObject obj)
      \<subseteq> set [] \<union> (\<lambda>k. (k, stabilize (obj_get obj k))) ` set (sort (map fst obj))"
    unfolding sortObject.simps by (rule members_fold_obj_set)
  then have "set (sortObject obj) \<subseteq> (\<lambda>k. (k, stabilize (obj_get obj k))) ` fst ` set obj"
    by simp
  with assms obtain k where "k \<in> fst ` set obj" "p = (k, stabilize (obj_get obj k))"
    by blast
  then show ?thesis by simp
qed

lemma sortObject_sorted:
  "distinct (map fst obj) \<Longrightarrow> sorted_wrt js_before (map fst (sortObject obj))"
  using sorted_fold_obj_set [of "[]" "sort (map fst obj)" "[]" "\<lambda>k. stabilize (obj_get obj k)"]
  by (simp add: sortObject.simps)

lemma obj_get_member: "k \<in> fst ` set obj \<Longrightarrow> (k, obj_get obj k) \<in> set obj"
  by (induction obj) (auto simp: obj_get_def)

text \<open>
  At every depth the keys of a stabilized object are in the property order of
  JavaScript: array indices first, by value, then the other keys by code units.
\<close>

lemma stabilize_keys_in_js_order: "distinct_keys v \<Longrightarrow> keys_in_js_order (stabilize v)"
proof (induction v)
  case (JArray items)
  then show ?case by (simp add: list_all_iff)
next
  case (JObject obj)
  have d: "distinct (map fst obj)" using JObject.prems by simp
  have "keys_in_js_order (snd p)" if p: "p \<in> set (sortObject obj)" for p
  proof -
    from sortObject_members [OF p]
    have k: "fst p \<in> fst ` set obj" and e: "snd p = stabilize (obj_get obj (fst p))"
      by simp_all
    from obj_get_member [OF k] have m: "(fst p, obj_get obj (fst p)) \<in> set obj" .
    then have "distinct_keys (obj_get obj (fst p))"
      using JObject.prems by (auto simp: list_all_iff)
    with m show ?thesis
      using JObject.IH [of "(fst p, obj_get obj (fst p))" "obj_get obj (fst p)"] e by simp
  qed
  then show ?case
    using sortObject_sorted [OF d] by (simp add: list_all_iff)
qed simp_all

subsection \<open>Keys kept, array order, whitespace\<close>

lemma keys_update:
  "map fst (map (\<lambda>p. if fst p = k then (k, v) else p) s) = map fst s"
  by (induction s) auto

lemma keys_obj_set_eq:
  "fst ` set (obj_set s k v) = (if k = ''__proto__'' then fst ` set s else insert k (fst ` set s))"
proof (cases "k \<noteq> ''__proto__'' \<and> k \<in> fst ` set s")
  case True
  have "fst ` set (map (\<lambda>p. if fst p = k then (k, v) else p) s) = fst ` set s"
    using keys_update [of k v s] by (metis set_map)
  then show ?thesis
    using True by (auto simp: obj_set_def)
next
  case False
  then show ?thesis
    by (auto simp: obj_set_def keys_insert_index)
qed

lemma keys_fold_obj_set:
  "fst ` set (fold (\<lambda>k s. obj_set s k (g k)) ks s) = fst ` set s \<union> (set ks - {''__proto__''})"
proof (induction ks arbitrary: s)
  case Nil
  then show ?case by simp
next
  case (Cons k ks)
  show ?case
    using Cons.IH [of "obj_set s k (g k)"] by (auto simp: keys_obj_set_eq)
qed

text \<open>
  Every key of the input object is a key of the result, except \<open>__proto__\<close>.
\<close>

lemma sortObject_keys: "fst ` set (sortObject obj) = fst ` set obj - {''__proto__''}"
  using keys_fold_obj_set [of "\<lambda>k. stabilize (obj_get obj k)" "sort (map fst obj)" "[]"]
  by (simp add: sortObject.simps)

lemma hex_digit_not_whitespace: "\<not> is_whitespace (hex_digit n)"
proof -
  have "hex_digit n \<in> set ''0123456789abcdef''"
    unfolding hex_digit_def by (rule nth_mem) simp
  then show ?thesis
    by (auto simp: is_whitespace_def)
qed

lemma quote_char_cases:
  "x \<in> set (quote_char c) \<Longrightarrow>
   (x = c \<and> c \<noteq> CHR 0x09 \<and> c \<noteq> CHR 0x0A \<and> c \<noteq> CHR 0x0D)
   \<or> x \<in> set [CHR 0x5C, CHR ''b'', CHR ''t'', CHR ''n'', CHR ''f'', CHR ''r'', CHR 0x22,
                 CHR ''u'', CHR ''0'']
   \<or> (\<exists>n. x = hex_digit n)"
  by (auto simp: quote_char_def split: if_splits)

lemma quote_char_whitespace:
  assumes "x \<in> set (quote_char c)" and "is_whitespace x"
  shows "x = CHR '' '' \<and> c = x"
proof -
  from quote_char_cases [OF assms(1)] consider
    (same) "x = c \<and> c \<noteq> CHR 0x09 \<and> c \<noteq> CHR 0x0A \<and> c \<noteq> CHR 0x0D"
    | (fixed) "x \<in> set [CHR 0x5C, CHR ''b'', CHR ''t'', CHR ''n'', CHR ''f'', CHR ''r'', CHR 0x22,
                 CHR ''u'', CHR ''0'']"
    | (hex) "\<exists>n. x = hex_digit n"
    by blast
  then show ?thesis
  proof cases
    case same
    then show ?thesis using assms(2) by (auto simp: is_whitespace_def)
  next
    case fixed
    then show ?thesis using assms(2) by (auto simp: is_whitespace_def)
  next
    case hex
    then show ?thesis using assms(2) hex_digit_not_whitespace by blast
  qed
qed

lemma quote_whitespace:
  "x \<in> set (quote s) \<Longrightarrow> is_whitespace x \<Longrightarrow> x = CHR '' '' \<and> x \<in> set s"
proof -
  assume x: "x \<in> set (quote s)" and w: "is_whitespace x"
  have "x \<noteq> CHR 0x22" using w by (auto simp: is_whitespace_def)
  with x obtain c where "c \<in> set s" "x \<in> set (quote_char c)"
    by (auto simp: quote_def)
  then show ?thesis using quote_char_whitespace [OF _ w] by blast
qed

lemma digits_of_whitespace: "x \<in> set (digits_of n) \<Longrightarrow> \<not> is_whitespace x"
proof (induction n rule: digits_of.induct)
  case (1 n)
  show ?case
  proof (cases "n < 10")
    case True
    then show ?thesis
      using "1.prems" hex_digit_not_whitespace by (simp add: digits_of.simps [of n])
  next
    case False
    then show ?thesis
      using "1.prems" "1.IH" hex_digit_not_whitespace by (auto simp: digits_of.simps [of n])
  qed
qed

lemma number_to_string_whitespace: "x \<in> set (number_to_string n) \<Longrightarrow> \<not> is_whitespace x"
  using digits_of_whitespace
  by (auto simp: number_to_string_def is_whitespace_def split: if_splits)

lemma join_set: "set (join sep xs) \<subseteq> set sep \<union> \<Union> (set ` set xs)"
  by (induction sep xs rule: join.induct) auto

lemma join_member:
  "x \<in> set (join sep xs) \<Longrightarrow> x \<notin> set sep \<Longrightarrow> \<exists>y \<in> set xs. x \<in> set y"
  using join_set [of sep xs] by blast

lemma JSON_stringify_whitespace:
  "x \<in> set (JSON_stringify v) \<Longrightarrow> is_whitespace x \<Longrightarrow>
   x = CHR '' '' \<and> (\<exists>s \<in> set (strings_of v). x \<in> set s)"
proof (induction v)
  case JNull
  then show ?case by (auto simp: is_whitespace_def)
next
  case (JBool b)
  then show ?case by (auto simp: is_whitespace_def split: if_splits)
next
  case (JNumber n)
  then show ?case using number_to_string_whitespace by auto
next
  case (JString s)
  then show ?case using quote_whitespace by auto
next
  case (JArray items)
  have "x \<noteq> CHR ''['' \<and> x \<noteq> CHR '']'' \<and> x \<noteq> CHR '',''"
    using JArray.prems(2) by (auto simp: is_whitespace_def)
  then have "x \<in> set (join '','' (map JSON_stringify items))"
    using JArray.prems(1) by auto
  then have "\<exists>y \<in> set (map JSON_stringify items). x \<in> set y"
    using \<open>x \<noteq> CHR ''['' \<and> x \<noteq> CHR '']'' \<and> x \<noteq> CHR '',''\<close>
    by (intro join_member [of x "'',''"]) auto
  then obtain i where "i \<in> set items" "x \<in> set (JSON_stringify i)"
    by auto
  then have "x = CHR '' '' \<and> (\<exists>s \<in> set (strings_of i). x \<in> set s)"
    using JArray.IH [of i] JArray.prems(2) by blast
  then show ?case
    using \<open>i \<in> set items\<close> by auto
next
  case (JObject obj)
  have n: "x \<noteq> CHR ''{'' \<and> x \<noteq> CHR ''}'' \<and> x \<noteq> CHR '','' \<and> x \<noteq> CHR '':''"
    using JObject.prems(2) by (auto simp: is_whitespace_def)
  then have "x \<in> set (join '','' (map (\<lambda>p. quote (fst p) @ '':'' @ JSON_stringify (snd p)) obj))"
    using JObject.prems(1) by auto
  then have "\<exists>y \<in> set (map (\<lambda>p. quote (fst p) @ '':'' @ JSON_stringify (snd p)) obj). x \<in> set y"
    using n by (intro join_member [of x "'',''"]) auto
  then obtain p where p: "p \<in> set obj"
      and "x \<in> set (quote (fst p) @ '':'' @ JSON_stringify (snd p))"
    by auto
  then have "x \<in> set (quote (fst p)) \<or> x \<in> set (JSON_stringify (snd p))"
    using n by auto
  then show ?case
  proof
    assume "x \<in> set (quote (fst p))"
    then have "x = CHR '' '' \<and> x \<in> set (fst p)"
      using quote_whitespace JObject.prems(2) by blast
    then show ?thesis using p by auto
  next
    assume "x \<in> set (JSON_stringify (snd p))"
    then have "x = CHR '' '' \<and> (\<exists>s \<in> set (strings_of (snd p)). x \<in> set s)"
      using JObject.IH [of p "snd p"] p JObject.prems(2) by (cases p) auto
    then show ?thesis using p by auto
  qed
qed

lemma strings_of_member:
  "(k, w) \<in> set obj \<Longrightarrow> insert k (set (strings_of w)) \<subseteq> set (strings_of (JObject obj))"
  by force

lemma strings_of_stabilize: "set (strings_of (stabilize v)) \<subseteq> set (strings_of v)"
proof (induction v)
  case (JArray items)
  then show ?case by auto
next
  case (JObject obj)
  have "insert (fst p) (set (strings_of (snd p))) \<subseteq> set (strings_of (JObject obj))"
    if p: "p \<in> set (sortObject obj)" for p
  proof -
    from sortObject_members [OF p]
    have k: "fst p \<in> fst ` set obj" and e: "snd p = stabilize (obj_get obj (fst p))"
      by simp_all
    from obj_get_member [OF k] have m: "(fst p, obj_get obj (fst p)) \<in> set obj" .
    have "set (strings_of (snd p)) \<subseteq> set (strings_of (obj_get obj (fst p)))"
      using JObject.IH [of "(fst p, obj_get obj (fst p))" "obj_get obj (fst p)"] m e by simp
    then show ?thesis
      using strings_of_member [OF m] by blast
  qed
  then show ?case by auto
qed simp_all

text \<open>
  The serializer adds no whitespace: a tab, line feed or carriage return never occurs
  in the output, and a space only where a string or key of the value has one.
\<close>

lemma stableStringify_whitespace:
  "x \<in> set (stableStringify v) \<Longrightarrow> is_whitespace x \<Longrightarrow>
   x = CHR '' '' \<and> (\<exists>s \<in> set (strings_of v). x \<in> set s)"
  using JSON_stringify_whitespace [of x "stabilize v"] strings_of_stabilize [of v]
  by (auto simp: stableStringify_def)

text \<open>
  An array is serialized element by element, in the order of the array.
\<close>

lemma stableStringify_array:
  "stableStringify (JArray items) = ''['' @ join '','' (map stableStringify items) @ '']''"
  unfolding stableStringify_def by (simp add: comp_def)

subsection \<open>Keys that look like integers\<close>

text \<open>
  C9. The object \<open>{"2": null, "10": null}\<close>: \<open>sortObject\<close> sorts its keys to \<open>10\<close>, \<open>2\<close>
  and assigns them in that order, but the object it builds lists an array index by its
  numeric value, so the serialization has the key \<open>2\<close> before the key \<open>10\<close>, although
  \<open>10\<close> is the smaller string.
\<close>

theorem stableStringify_integer_keys:
  "stableStringify (JObject [(''2'', JNull), (''10'', JNull)]) = ''{\"2\":null,\"10\":null}''
   \<and> ''10'' < ''2''"
  by code_simp

text \<open>An own key \<open>__proto__\<close> is lost: the assignment to it creates no property.\<close>

lemma stableStringify_proto_key:
  "stableStringify (JObject [(''__proto__'', JNumber 1), (''a'', JNumber 2)]) = ''{\"a\":2}''"
  by code_simp

section \<open>Test vectors of the hash\<close>

text \<open>
  The model of SHA-256 on the test vector of FIPS 180-4, and on the canonical JSON of
  two small payloads.
\<close>

lemma sha256_abc:
  "sha256Hex ''abc'' = ''ba7816bf8f01cfea414140de5dae2223b00361a396177a9cb410ff61f20015ad''"
  by code_simp

lemma hello_payload_hash:
  "sha256Json hello_payload
     = ''93a23971a914e5eacbf0a8d25154cda309c3c1c72fbb9914d47c60f3cb681588''"
  by code_simp


section \<open>Properties of the permission checks\<close>

lemma provider_of_prefix:
  "CHR ''/'' \<notin> set p \<Longrightarrow> provider_of (p @ CHR ''/'' # rest) = p"
  by (induction p) (auto simp: provider_of_def)

lemma canUseTool_iff:
  "canUseTool c t \<longleftrightarrow> ''*'' \<in> set (tools (permissions c)) \<or> t \<in> set (tools (permissions c))"
  by (simp add: canUseTool_def)

lemma canUseModel_iff:
  "canUseModel c m \<longleftrightarrow>
     (case allowedModels (permissions c) of None \<Rightarrow> True
      | Some ms \<Rightarrow> ms = [] \<or> m \<in> set ms \<or> (provider_of m @ ''/*'') \<in> set ms)"
  by (auto simp: canUseModel_def split: option.splits)

lemma canUseSkill_iff:
  "canUseSkill c s \<longleftrightarrow>
     (case allowedSkills (permissions c) of None \<Rightarrow> True
      | Some ss \<Rightarrow> ss = [] \<or> s \<in> set ss \<or> ''*'' \<in> set ss)"
  by (auto simp: canUseSkill_def split: option.splits)

text \<open>
  C8 (as the code has it). The five checks are functions of the context and the
  requested value alone, and each is decided as follows.
  \<^item> \<open>canUseTool\<close> passes exactly when the tools list holds \<open>*\<close> or the tool name itself:
    there is no namespace wildcard, and an empty tools list permits no tool.
  \<^item> \<open>canUseModel\<close> passes exactly when \<open>allowedModels\<close> is absent or empty, or holds the
    model name itself or \<open>provider/*\<close>, where the provider is the part of the model name
    before its first slash; for a model name \<open>p/rest\<close> that provider is \<open>p\<close>.
  \<^item> \<open>canUseSkill\<close> passes exactly when \<open>allowedSkills\<close> is absent or empty, or holds the
    skill name itself or \<open>*\<close>.
  \<^item> \<open>hasBudget\<close> passes exactly when \<open>budgetRemaining\<close> is absent or at least the estimated
    cost (0 when none is given).
  \<^item> \<open>withinTokenLimit\<close> passes exactly when \<open>maxTokens\<close> is absent or at least the token
    count.
\<close>

theorem permission_checks:
  "(canUseTool c t \<longleftrightarrow> ''*'' \<in> set (tools (permissions c)) \<or> t \<in> set (tools (permissions c)))
   \<and> (canUseModel c m \<longleftrightarrow>
        (case allowedModels (permissions c) of None \<Rightarrow> True
         | Some ms \<Rightarrow> ms = [] \<or> m \<in> set ms \<or> (provider_of m @ ''/*'') \<in> set ms))
   \<and> (CHR ''/'' \<notin> set p \<longrightarrow> provider_of (p @ ''/'' @ rest) = p)
   \<and> (canUseSkill c s \<longleftrightarrow>
        (case allowedSkills (permissions c) of None \<Rightarrow> True
         | Some ss \<Rightarrow> ss = [] \<or> s \<in> set ss \<or> ''*'' \<in> set ss))
   \<and> (hasBudget c cost \<longleftrightarrow>
        (case budgetRemaining (permissions c) of None \<Rightarrow> True
         | Some b \<Rightarrow> (case cost of None \<Rightarrow> 0 | Some x \<Rightarrow> x) \<le> b))
   \<and> (withinTokenLimit c n \<longleftrightarrow>
        (case maxTokens (permissions c) of None \<Rightarrow> True | Some l \<Rightarrow> n \<le> l))"
  using provider_of_prefix [of p rest]
  by (simp add: canUseTool_iff canUseModel_iff canUseSkill_iff hasBudget_def withinTokenLimit_def)

theorem permission_checks_witness:
  "canUseModel (tenant_with ((only_tools [])\<lparr>allowedModels := Some [''openai/*'']\<rparr>)) ''openai/gpt-4o''
   \<and> provider_of (''openai'' @ ''/'' @ ''gpt-4o'') = ''openai''
   \<and> canUseTool (tenant_with (only_tools [''*''])) ''any_tool''
   \<and> \<not> canUseModel (tenant_with ((only_tools [])\<lparr>allowedModels := Some [''*'']\<rparr>)) ''gpt-4o''"
  using permission_checks [of "tenant_with ((only_tools [])\<lparr>allowedModels := Some [''openai/*'']\<rparr>)"
      "''any_tool''" "''openai/gpt-4o''" "''openai''" "''gpt-4o''" "''s''" None 0]
    permission_checks [of "tenant_with (only_tools [''*''])"
      "''any_tool''" "''openai/gpt-4o''" "''openai''" "''gpt-4o''" "''s''" None 0]
    permission_checks [of "tenant_with ((only_tools [])\<lparr>allowedModels := Some [''*'']\<rparr>)"
      "''any_tool''" "''gpt-4o''" "''openai''" "''gpt-4o''" "''s''" None 0]
  by (simp add: tenant_with_def only_tools_def provider_of_def)

text \<open>
  C8 as claimed fails: the allowed tool \<open>tickets:*\<close> does not permit the tool
  \<open>tickets:read\<close>, and a context with no tool restriction (an empty tools list) permits
  no tool at all.
\<close>

theorem canUseTool_namespace_counterexample:
  "\<not> canUseTool (tenant_with (only_tools [''tickets:*''])) ''tickets:read''
   \<and> \<not> canUseTool (tenant_with (only_tools [])) ''read_ticket''"
  by (simp add: canUseTool_def tenant_with_def only_tools_def)

section \<open>Properties of the tool token service\<close>

lemma consume_returns:
  "fst (consumeToolToken now j db) = list_ex (unused_row j) db"
  by (induction db) (auto simp: consumeToolToken_def Let_def)

lemma consume_table:
  "snd (consumeToolToken now j db)
     = map (\<lambda>r. if unused_row j r then r\<lparr>used_at := Some now\<rparr> else r) db"
  by (simp add: consumeToolToken_def Let_def)

lemma consume_marks_used:
  "\<not> list_ex (unused_row j) (snd (consumeToolToken now j db))"
  by (induction db) (auto simp: consume_table unused_row_def)


lemma consume_nothing:
  "\<not> list_ex (unused_row j) db \<Longrightarrow> consumeToolToken now j db = (False, db)"
proof -
  assume a: "\<not> list_ex (unused_row j) db"
  then have "map (\<lambda>r. if unused_row j r then r\<lparr>used_at := Some now\<rparr> else r) db = db"
    by (induction db) auto
  with a show ?thesis
    using consume_returns [of now j db] consume_table [of now j db]
    by (cases "consumeToolToken now j db") simp
qed






lemma example_issue_eq: "example_issue = Inr (example_issued, example_table)"
  by (simp add: example_issued_def example_table_def example_issue_def issueToolToken_def
      test_config_def truthy_def Let_def)




text \<open>
  C10. When the table has no row for an id, \<open>consumeToolToken\<close> returns false and leaves
  the table as it is; it returns a value, never an error. The value is the one a consume
  returns for an id that an earlier call has already consumed, in whatever table.
\<close>

theorem consume_unknown_token:
  "list_all (\<lambda>r. row_jti r \<noteq> j) db \<Longrightarrow>
   consumeToolToken now j db = (False, db)
   \<and> fst (consumeToolToken now j db)
       = fst (consumeToolToken now j (snd (consumeToolToken t j db')))"
proof -
  assume "list_all (\<lambda>r. row_jti r \<noteq> j) db"
  then have "\<not> list_ex (unused_row j) db"
    by (induction db) (auto simp: unused_row_def)
  then have "consumeToolToken now j db = (False, db)"
    by (rule consume_nothing)
  then show ?thesis
    by (simp add: consume_returns consume_marks_used)
qed

text \<open>
  An id that was never issued, and the issued id consumed a second time: false both.
\<close>

theorem consume_unknown_token_witness:
  "list_all (\<lambda>r. row_jti r \<noteq> ''never-issued'') example_table
   \<and> consumeToolToken 1001000 ''never-issued'' example_table = (False, example_table)
   \<and> fst (consumeToolToken 1002000 ''jti-1'' (snd (consumeToolToken 1001000 ''jti-1'' example_table)))
       = False"
proof -
  have a: "list_all (\<lambda>r. row_jti r \<noteq> ''never-issued'') example_table"
    by (simp add: example_table_def example_issue_def issueToolToken_def test_config_def
        truthy_def Let_def)
  show ?thesis
    using a consume_unknown_token [OF a, of 1001000 0 "[]"]
    by (simp add: consume_returns consume_marks_used)
qed

lemma issued_payload:
  "issueToolToken cfg t0 fresh claims ttl db0 = Inr (issued, db) \<Longrightarrow>
   token issued = Compact (toolTokenAlgorithm cfg)
     [(''typ'', JString ''tool_auth''),
      (''tenant_id'', JString (claim_tenant_id claims)),
      (''workspace_id'', JString (claim_workspace_id claims)),
      (''adapter_id'', JString (claim_adapter_id claims)),
      (''execution_id'', JString (claim_execution_id claims)),
      (''tool'', JString (claim_tool claims)),
      (''scope'', claim_scope claims),
      (''scope_hash'', JString (formatSha256 (sha256Json (claim_scope claims)))),
      (''iat'', JNumber (t0 div 1000)),
      (''exp'', JNumber (t0 div 1000 + (case ttl of None \<Rightarrow> 30 | Some t \<Rightarrow> t))),
      (''jti'', JString fresh)]
     (the (toolTokenSecret cfg))
   \<and> truthy (toolTokenSecret cfg)"
  by (auto simp: issueToolToken_def Let_def SignJWT_def split: if_splits)

text \<open>
  C5 (as the code has it). With the secret configured, \<open>verifyToolToken\<close> is the
  signature and expiry check of \<open>jwtVerify\<close> and no more: a string that is no JWS, a token
  of another algorithm or signed with another secret, and a token whose \<open>exp\<close> is not
  after the current time all fail with \<open>invalid_token\<close>, consumed or not; a token that
  \<open>issueToolToken\<close> returned verifies until its expiry and the caller receives its whole
  payload, the eight claims with \<open>iat\<close>, \<open>exp\<close> and \<open>jti\<close>. The table of stored rows is no
  argument of the function: no row is looked up.
\<close>

theorem verifyToolToken_checks:
  "truthy (toolTokenSecret cfg) \<Longrightarrow>
   verifyToolToken cfg now (Malformed s) = Inl invalid_token
   \<and> (a \<noteq> toolTokenAlgorithm cfg \<or> k \<noteq> the (toolTokenSecret cfg) \<longrightarrow>
        verifyToolToken cfg now (Compact a p k) = Inl invalid_token)
   \<and> (map_of p ''exp'' = Some (JNumber e) \<and> e \<le> now \<longrightarrow>
        verifyToolToken cfg now (Compact a p k) = Inl invalid_token)
   \<and> (issueToolToken cfg t0 fresh claims ttl db0 = Inr (issued, db)
        \<and> now < t0 div 1000 + (case ttl of None \<Rightarrow> 30 | Some t \<Rightarrow> t) \<longrightarrow>
        verifyToolToken cfg now (token issued) = Inr (jws_payload (token issued))
        \<and> map fst (jws_payload (token issued))
            = [''typ'', ''tenant_id'', ''workspace_id'', ''adapter_id'', ''execution_id'',
               ''tool'', ''scope'', ''scope_hash'', ''iat'', ''exp'', ''jti''])"
proof -
  assume s: "truthy (toolTokenSecret cfg)"
  have 1: "verifyToolToken cfg now (Malformed s) = Inl invalid_token"
    using s by (simp add: verifyToolToken_def)
  have 2: "a \<noteq> toolTokenAlgorithm cfg \<or> k \<noteq> the (toolTokenSecret cfg) \<longrightarrow>
        verifyToolToken cfg now (Compact a p k) = Inl invalid_token"
    using s by (auto simp: verifyToolToken_def)
  have 3: "map_of p ''exp'' = Some (JNumber e) \<and> e \<le> now \<longrightarrow>
        verifyToolToken cfg now (Compact a p k) = Inl invalid_token"
    using s by (auto simp: verifyToolToken_def claims_valid_at_def)
  have 4: "issueToolToken cfg t0 fresh claims ttl db0 = Inr (issued, db)
        \<and> now < t0 div 1000 + (case ttl of None \<Rightarrow> 30 | Some t \<Rightarrow> t) \<longrightarrow>
        verifyToolToken cfg now (token issued) = Inr (jws_payload (token issued))
        \<and> map fst (jws_payload (token issued))
            = [''typ'', ''tenant_id'', ''workspace_id'', ''adapter_id'', ''execution_id'',
               ''tool'', ''scope'', ''scope_hash'', ''iat'', ''exp'', ''jti'']"
  proof
    assume h: "issueToolToken cfg t0 fresh claims ttl db0 = Inr (issued, db)
        \<and> now < t0 div 1000 + (case ttl of None \<Rightarrow> 30 | Some t \<Rightarrow> t)"
    then have p: "token issued = Compact (toolTokenAlgorithm cfg)
     [(''typ'', JString ''tool_auth''),
      (''tenant_id'', JString (claim_tenant_id claims)),
      (''workspace_id'', JString (claim_workspace_id claims)),
      (''adapter_id'', JString (claim_adapter_id claims)),
      (''execution_id'', JString (claim_execution_id claims)),
      (''tool'', JString (claim_tool claims)),
      (''scope'', claim_scope claims),
      (''scope_hash'', JString (formatSha256 (sha256Json (claim_scope claims)))),
      (''iat'', JNumber (t0 div 1000)),
      (''exp'', JNumber (t0 div 1000 + (case ttl of None \<Rightarrow> 30 | Some t \<Rightarrow> t))),
      (''jti'', JString fresh)]
     (the (toolTokenSecret cfg))"
      using issued_payload by blast
    show "verifyToolToken cfg now (token issued) = Inr (jws_payload (token issued))
        \<and> map fst (jws_payload (token issued))
            = [''typ'', ''tenant_id'', ''workspace_id'', ''adapter_id'', ''execution_id'',
               ''tool'', ''scope'', ''scope_hash'', ''iat'', ''exp'', ''jti'']"
      using s h by (simp add: p verifyToolToken_def claims_valid_at_def)
  qed
  show ?thesis using 1 2 3 4 by blast
qed

text \<open>
  The example token, issued at 1000 s with the default lifetime of 30 s: it verifies at
  1029 s and fails at 1030 s.
\<close>

theorem verifyToolToken_checks_witness:
  "truthy (toolTokenSecret test_config)
   \<and> verifyToolToken test_config 1029 (token example_issued)
       = Inr (jws_payload (token example_issued))
   \<and> verifyToolToken test_config 1030 (token example_issued) = Inl invalid_token"
proof -
  have s: "truthy (toolTokenSecret test_config)"
    by (simp add: test_config_def truthy_def)
  have i: "issueToolToken test_config 1000000 ''jti-1'' test_claims None []
             = Inr (example_issued, example_table)"
    using example_issue_eq by (simp add: example_issue_def)
  have p: "token example_issued = Compact (jws_alg (token example_issued))
      (jws_payload (token example_issued)) (jws_signed_with (token example_issued))"
    using issued_payload [OF i] by simp
  have e: "map_of (jws_payload (token example_issued)) ''exp'' = Some (JNumber 1030)"
    using issued_payload [OF i] by simp
  show ?thesis
    using s i e
      verifyToolToken_checks [OF s, of 1029 "[]" "''x''" "''y''" "[]" 0 1000000 "''jti-1''"
        test_claims None "[]" example_issued example_table]
      verifyToolToken_checks [OF s, of 1030 "[]" "jws_alg (token example_issued)"
        "jws_signed_with (token example_issued)" "jws_payload (token example_issued)" 1030
        1000000 "''jti-1''" test_claims None "[]" example_issued example_table]
    by (simp add: p [symmetric])
qed

text \<open>
  C5 as claimed fails: a store with no row for the token's id (here the empty table)
  does not stop a signed, unexpired token from verifying.
\<close>

theorem verifyToolToken_no_row_counterexample:
  "filter (\<lambda>r. row_jti r = jti example_issued) [] = []
   \<and> verifyToolToken test_config 1029 (token example_issued)
       = Inr (jws_payload (token example_issued))"
proof -
  have i: "issueToolToken test_config 1000000 ''jti-1'' test_claims None []
             = Inr (example_issued, example_table)"
    using example_issue_eq by (simp add: example_issue_def)
  show ?thesis
    using issued_payload [OF i]
    by (simp add: verifyToolToken_def claims_valid_at_def test_config_def truthy_def)
qed

section \<open>Properties of the trace verdict\<close>








section \<open>Properties of the envelope verifier\<close>


lemma buildSigningInput_payload:
  "buildSigningInput (e\<lparr>payload := p\<rparr>) = buildSigningInput e"
  by (simp add: buildSigningInput_def)







text \<open>
  A changed signature string is not always rejected: \<open>parseSignature\<close> maps base64url
  to base64 and pads, so the base64 spelling of a base64url signature decodes to the same
  bytes and is accepted.
\<close>

lemma normalize_signature_respelling:
  "normalize_signature ''-_8'' = normalize_signature ''+/8=''"
  by (simp add: normalize_signature_def)

lemma signature_respelling_accepted:
  "''+/8='' \<noteq> signature example_envelope
   \<and> verifySignedEnvelope example_runtime 1767225600000
        (example_envelope\<lparr>signature := ''+/8=''\<rparr>) (Some example_key) 300 = Inr ()"
  by (simp add: verifySignedEnvelope_def example_envelope_def example_key_def
      example_runtime_def truthy_def hello_payload_hash formatSha256_def parseSignature_def
      normalize_signature_def)

end
